theory Spec2Isabelle
  imports Main
begin

section \<open>Values and typed errors\<close>

text \<open>
  A JavaScript string is modelled as a \<open>string\<close> of 8-bit characters. A number that
  the program only uses as a non-negative integer (a timeout in milliseconds, an HTTP
  status, a port) is a \<open>nat\<close>.

  \<open>jsvalue\<close> is what a \<^verbatim>\<open>catch\<close> handler can receive (type \<^verbatim>\<open>unknown\<close>): a
  JavaScript \<^verbatim>\<open>Error\<close> with its message, a thrown value that is not an \<^verbatim>\<open>Error\<close>,
  or one of the tagged errors of the pipeline (\<^verbatim>\<open>Data.TaggedError\<close> extends
  \<^verbatim>\<open>Error\<close>). The six classes of the source are the constructors of
  \<open>ScrapingError\<close>, with the fields in the order of the source.
\<close>

datatype jsvalue =
    JsError string
  | NonError string
  | Tagged ScrapingError
and ScrapingError =
    NetworkError string string "jsvalue option"
  | TimeoutError string string nat
  | RateLimitError string string "nat option"
  | IPBlockError string string "string option"
  | BrowserError string "jsvalue option"
  | ParseError string "jsvalue option"

fun tag :: "ScrapingError \<Rightarrow> string" where
  "tag (NetworkError m u c) = ''NetworkError''"
| "tag (TimeoutError m u t) = ''TimeoutError''"
| "tag (RateLimitError m u r) = ''RateLimitError''"
| "tag (IPBlockError m u p) = ''IPBlockError''"
| "tag (BrowserError m c) = ''BrowserError''"
| "tag (ParseError m c) = ''ParseError''"

fun message :: "ScrapingError \<Rightarrow> string" where
  "message (NetworkError m u c) = m"
| "message (TimeoutError m u t) = m"
| "message (RateLimitError m u r) = m"
| "message (IPBlockError m u p) = m"
| "message (BrowserError m c) = m"
| "message (ParseError m c) = m"

text \<open>\<^verbatim>\<open>error instanceof Error\<close> and \<^verbatim>\<open>error.message\<close> on a caught value.\<close>

fun instanceofError :: "jsvalue \<Rightarrow> bool" where
  "instanceofError (JsError m) = True"
| "instanceofError (NonError v) = False"
| "instanceofError (Tagged e) = True"

fun errorMessage :: "jsvalue \<Rightarrow> string" where
  "errorMessage (JsError m) = m"
| "errorMessage (NonError v) = []"
| "errorMessage (Tagged e) = message e"

text \<open>\<^verbatim>\<open>String.prototype.includes\<close>: the argument occurs as a contiguous substring.\<close>

fun str_includes :: "string \<Rightarrow> string \<Rightarrow> bool" where
  "str_includes [] sub = (sub = [])"
| "str_includes (c # cs) sub = (take (length sub) (c # cs) = sub \<or> str_includes cs sub)"

text \<open>The decimal rendering of a number in a template string.\<close>

definition digit :: "nat \<Rightarrow> char" where
  "digit d = ''0123456789'' ! d"

fun string_of_nat :: "nat \<Rightarrow> string" where
  "string_of_nat n =
     (if n < 10 then [digit n] else string_of_nat (n div 10) @ [digit (n mod 10)])"

declare string_of_nat.simps [simp del]

section \<open>The world: browser engine, clock and trace\<close>

text \<open>
  The browser automation engine (Puppeteer) and the clock are outside the program. The
  world holds, for the \<open>n\<close>-th launch, how the engine behaves on that browser
  (\<open>engines\<close>), the number of launches so far, and the trace of every call the program
  has made to the engine or the clock.
\<close>

datatype gotoOutcome = GotoThrows jsvalue | GotoNull | GotoResponse nat

record engine =
  launch_throws :: "jsvalue option"
  newPage_throws :: "jsvalue option"
  authenticate_throws :: "jsvalue option"
  goto_outcome :: gotoOutcome
  content_outcome :: "jsvalue + string"
  pageClose_throws :: "jsvalue option"
  browserClose_throws :: "jsvalue option"

record launchOptions =
  headless :: bool
  args :: "string list"
  ignoreHTTPSErrors :: bool

datatype event =
    Slept nat
  | SetEnv string string
  | Launch launchOptions
  | NewPage nat
  | Authenticate nat string string
  | Goto nat string string nat
  | Content nat
  | ClosePage nat
  | CloseBrowser nat

record world =
  engines :: "nat \<Rightarrow> engine"
  launched :: nat
  trace :: "event list"

definition logCall :: "event \<Rightarrow> world \<Rightarrow> world" where
  "logCall ev w = w\<lparr>trace := trace w @ [ev]\<rparr>"

text \<open>
  The calls of the engine interface. A browser handle is the index of its launch; the
  program opens one page per browser, so a page handle is the index of its browser.
\<close>

definition puppeteer_launch :: "launchOptions \<Rightarrow> world \<Rightarrow> (jsvalue + nat) \<times> world" where
  "puppeteer_launch opts w =
     (let n = launched w; w' = logCall (Launch opts) (w\<lparr>launched := n + 1\<rparr>)
      in case launch_throws (engines w n) of
           Some t \<Rightarrow> (Inl t, w')
         | None \<Rightarrow> (Inr n, w'))"

definition browser_newPage :: "nat \<Rightarrow> world \<Rightarrow> (jsvalue + nat) \<times> world" where
  "browser_newPage b w =
     (case newPage_throws (engines w b) of
        Some t \<Rightarrow> (Inl t, logCall (NewPage b) w)
      | None \<Rightarrow> (Inr b, logCall (NewPage b) w))"

definition page_authenticate :: "nat \<Rightarrow> string \<Rightarrow> string \<Rightarrow> world \<Rightarrow> (jsvalue + unit) \<times> world" where
  "page_authenticate p user pass w =
     (case authenticate_throws (engines w p) of
        Some t \<Rightarrow> (Inl t, logCall (Authenticate p user pass) w)
      | None \<Rightarrow> (Inr (), logCall (Authenticate p user pass) w))"

definition page_goto ::
  "nat \<Rightarrow> string \<Rightarrow> string \<Rightarrow> nat \<Rightarrow> world \<Rightarrow> (jsvalue + nat option) \<times> world" where
  "page_goto p url waitUntil timeout w =
     (case goto_outcome (engines w p) of
        GotoThrows t \<Rightarrow> (Inl t, logCall (Goto p url waitUntil timeout) w)
      | GotoNull \<Rightarrow> (Inr None, logCall (Goto p url waitUntil timeout) w)
      | GotoResponse status \<Rightarrow> (Inr (Some status), logCall (Goto p url waitUntil timeout) w))"

definition page_content :: "nat \<Rightarrow> world \<Rightarrow> (jsvalue + string) \<times> world" where
  "page_content p w = (content_outcome (engines w p), logCall (Content p) w)"

definition page_close :: "nat \<Rightarrow> world \<Rightarrow> (jsvalue + unit) \<times> world" where
  "page_close p w =
     (case pageClose_throws (engines w p) of
        Some t \<Rightarrow> (Inl t, logCall (ClosePage p) w)
      | None \<Rightarrow> (Inr (), logCall (ClosePage p) w))"

definition browser_close :: "nat \<Rightarrow> world \<Rightarrow> (jsvalue + unit) \<times> world" where
  "browser_close b w =
     (case browserClose_throws (engines w b) of
        Some t \<Rightarrow> (Inl t, logCall (CloseBrowser b) w)
      | None \<Rightarrow> (Inr (), logCall (CloseBrowser b) w))"

section \<open>Effects\<close>

text \<open>
  An \<^verbatim>\<open>Effect<A, E>\<close> is run on a world and yields a failure \<open>Inl e\<close> or a success
  \<open>Inr a\<close> with the world after it; \<open>None\<close> stands for a run that never returns.
  The combinators below are those of the Effect library that the program uses.
\<close>

type_synonym ('e, 'a) effect = "world \<Rightarrow> (('e + 'a) \<times> world) option"

definition succeed :: "'a \<Rightarrow> ('e, 'a) effect" where
  "succeed a = (\<lambda>w. Some (Inr a, w))"

definition void :: "('e, unit) effect" where
  "void = succeed ()"

definition flatMap :: "('e, 'a) effect \<Rightarrow> ('a \<Rightarrow> ('e, 'b) effect) \<Rightarrow> ('e, 'b) effect" where
  "flatMap self f =
     (\<lambda>w. case self w of
            None \<Rightarrow> None
          | Some (Inl e, w') \<Rightarrow> Some (Inl e, w')
          | Some (Inr a, w') \<Rightarrow> f a w')"

definition catchAll :: "('e, 'a) effect \<Rightarrow> ('e \<Rightarrow> ('f, 'a) effect) \<Rightarrow> ('f, 'a) effect" where
  "catchAll self f =
     (\<lambda>w. case self w of
            None \<Rightarrow> None
          | Some (Inl e, w') \<Rightarrow> f e w'
          | Some (Inr a, w') \<Rightarrow> Some (Inr a, w'))"

definition sleep :: "nat \<Rightarrow> ('e, unit) effect" where
  "sleep millis = (\<lambda>w. Some (Inr (), logCall (Slept millis) w))"

text \<open>
  \<^verbatim>\<open>Effect.tryPromise({try, catch})\<close> and \<^verbatim>\<open>Effect.try({try, catch})\<close>: the body runs;
  what it throws is mapped by the \<^verbatim>\<open>catch\<close> function to the typed failure.
\<close>

definition tryPromise ::
  "(world \<Rightarrow> (jsvalue + 'a) \<times> world) \<Rightarrow> (jsvalue \<Rightarrow> 'e) \<Rightarrow> ('e, 'a) effect" where
  "tryPromise tryFn catchFn =
     (\<lambda>w. case tryFn w of
            (Inl thrown, w') \<Rightarrow> Some (Inl (catchFn thrown), w')
          | (Inr a, w') \<Rightarrow> Some (Inr a, w'))"

definition try_sync :: "(jsvalue + 'a) \<Rightarrow> (jsvalue \<Rightarrow> 'e) \<Rightarrow> ('e, 'a) effect" where
  "try_sync tryFn catchFn =
     (\<lambda>w. case tryFn of
            Inl thrown \<Rightarrow> Some (Inl (catchFn thrown), w)
          | Inr a \<Rightarrow> Some (Inr a, w))"

text \<open>
  \<^verbatim>\<open>Effect.acquireUseRelease(acquire, use, release)\<close>: when \<open>acquire\<close> fails nothing
  was acquired and nothing is released; otherwise \<open>use\<close> runs, then \<open>release\<close> runs
  whatever \<open>use\<close> returned, and the outcome is that of \<open>use\<close>. The library types
  \<open>release\<close> with the error type \<^verbatim>\<open>never\<close>: its exit carries nothing, only its
  effect on the world is kept.
\<close>

definition acquireUseRelease ::
  "('e, 'r) effect \<Rightarrow> ('r \<Rightarrow> ('e, 'a) effect) \<Rightarrow> ('r \<Rightarrow> ('n, unit) effect) \<Rightarrow> ('e, 'a) effect" where
  "acquireUseRelease acquire use release =
     (\<lambda>w. case acquire w of
            None \<Rightarrow> None
          | Some (Inl e, w1) \<Rightarrow> Some (Inl e, w1)
          | Some (Inr r, w1) \<Rightarrow>
              (case use r w1 of
                 None \<Rightarrow> None
               | Some (exit, w2) \<Rightarrow>
                   (case release r w2 of
                      None \<Rightarrow> None
                    | Some (released, w3) \<Rightarrow> Some (exit, w3))))"

subsection \<open>Schedules and retry\<close>

text \<open>
  A schedule is a state machine fed with the failure of the last attempt: it is done, or
  it continues after a delay in milliseconds.
  \<^item> \<^verbatim>\<open>Schedule.exponential(base)\<close> always recurs; its \<open>i\<close>-th recurrence (from 0) waits
    \<open>base * factor ^ i\<close>, with the library's default factor 2.
  \<^item> \<^verbatim>\<open>Schedule.recurs(n)\<close> recurs \<open>n\<close> times without delay.
  \<^item> \<^verbatim>\<open>Schedule.intersect\<close> continues only while both schedules continue, with the
    longer of the two delays.
  \<^item> \<^verbatim>\<open>Schedule.untilInput(f)\<close>, which is what the option \<^verbatim>\<open>until\<close> of
    \<^verbatim>\<open>Effect.retry\<close> adds to the schedule, continues until \<open>f\<close> holds of the input: it
    is done as soon as the failure satisfies \<open>f\<close>.
\<close>

datatype decision = Done | Continue nat

record ('s, 'i) schedule =
  initial :: 's
  step :: "'i \<Rightarrow> 's \<Rightarrow> 's \<times> decision"

definition exponential :: "nat \<Rightarrow> nat \<Rightarrow> (nat, 'i) schedule" where
  "exponential base factor =
     \<lparr>initial = 0, step = (\<lambda>input i. (i + 1, Continue (base * factor ^ i)))\<rparr>"

definition recurs :: "nat \<Rightarrow> (nat, 'i) schedule" where
  "recurs n =
     \<lparr>initial = 0, step = (\<lambda>input k. (k + 1, if k < n then Continue 0 else Done))\<rparr>"

definition intersect ::
  "('s, 'i) schedule \<Rightarrow> ('t, 'i) schedule \<Rightarrow> ('s \<times> 't, 'i) schedule" where
  "intersect self that =
     \<lparr>initial = (initial self, initial that),
      step = (\<lambda>input (s, t).
        let (s', l) = step self input s; (t', r) = step that input t
        in ((s', t'),
            case l of
              Done \<Rightarrow> Done
            | Continue dl \<Rightarrow> (case r of Done \<Rightarrow> Done | Continue dr \<Rightarrow> Continue (max dl dr))))\<rparr>"

definition untilInput :: "('s, 'i) schedule \<Rightarrow> ('i \<Rightarrow> bool) \<Rightarrow> ('s, 'i) schedule" where
  "untilInput self f =
     \<lparr>initial = initial self,
      step = (\<lambda>input s.
        let (s', d) = step self input s
        in (s', case d of Done \<Rightarrow> Done | Continue dl \<Rightarrow> if f input then Done else Continue dl))\<rparr>"

text \<open>
  \<^verbatim>\<open>Effect.retry(self, schedule)\<close>: run \<open>self\<close>; on a failure step the schedule with
  it; when the schedule is done the failure is the result, otherwise sleep for the delay
  and run \<open>self\<close> again. A schedule that never is done on an effect that always fails
  never returns.
\<close>

partial_function (option) retry_loop ::
  "('e, 'a) effect \<Rightarrow> ('e \<Rightarrow> 's \<Rightarrow> 's \<times> decision) \<Rightarrow> 's \<Rightarrow> world \<Rightarrow> (('e + 'a) \<times> world) option" where
  "retry_loop self stp s w =
     (case self w of
        None \<Rightarrow> None
      | Some (Inr a, w') \<Rightarrow> Some (Inr a, w')
      | Some (Inl e, w') \<Rightarrow>
          (case stp e s of
             (s', Done) \<Rightarrow> Some (Inl e, w')
           | (s', Continue millis) \<Rightarrow> retry_loop self stp s' (logCall (Slept millis) w')))"

declare retry_loop.simps [code]

definition retry :: "('e, 'a) effect \<Rightarrow> ('s, 'e) schedule \<Rightarrow> ('e, 'a) effect" where
  "retry self policy = retry_loop self (step policy) (initial policy)"

text \<open>\<^verbatim>\<open>Effect.retry(self, {schedule, until})\<close>.\<close>

definition retry_until ::
  "('e, 'a) effect \<Rightarrow> ('s, 'e) schedule \<Rightarrow> ('e \<Rightarrow> bool) \<Rightarrow> ('e, 'a) effect" where
  "retry_until self policy until = retry self (untilInput policy until)"

section \<open>Proxy configuration\<close>

text \<open>
  \<^verbatim>\<open>BRIGHT_DATA_CONFIG\<close> is read from the process environment when the module is
  loaded; the three variables are the parameter \<open>env\<close>. A variable that is unset or
  the empty string is falsy.
\<close>

record processEnv =
  BRIGHT_DATA_CUSTOMER_ID :: "string option"
  BRIGHT_DATA_ZONE :: "string option"
  BRIGHT_DATA_PASSWORD :: "string option"

record ProxyConfig =
  host :: string
  port :: nat
  username :: string
  password :: string

definition proxyHost :: string where
  "proxyHost = ''brd.superproxy.io''"

definition proxyPort :: nat where
  "proxyPort = 33335"

fun truthy :: "string option \<Rightarrow> bool" where
  "truthy None = False"
| "truthy (Some v) = (v \<noteq> [])"

definition isBrightDataConfigured :: "processEnv \<Rightarrow> bool" where
  "isBrightDataConfigured env =
     (truthy (BRIGHT_DATA_CUSTOMER_ID env) \<and> truthy (BRIGHT_DATA_ZONE env)
      \<and> truthy (BRIGHT_DATA_PASSWORD env))"

definition buildProxyConfig :: "processEnv \<Rightarrow> ProxyConfig option" where
  "buildProxyConfig env =
     (if \<not> isBrightDataConfigured env then None
      else Some \<lparr>host = proxyHost, port = proxyPort,
                 username = ''brd-customer-'' @ the (BRIGHT_DATA_CUSTOMER_ID env)
                            @ ''-zone-'' @ the (BRIGHT_DATA_ZONE env),
                 password = the (BRIGHT_DATA_PASSWORD env)\<rparr>)"

section \<open>Browser functions\<close>

definition TARGET_URL :: string where
  "TARGET_URL = ''https://quotes.toscrape.com/js/''"

text \<open>
  The \<^verbatim>\<open>try\<close> body of \<open>launchBrowser\<close>. With a proxy it first sets
  \<^verbatim>\<open>NODE_TLS_REJECT_UNAUTHORIZED\<close> in the process environment.
\<close>

definition launch_try :: "ProxyConfig option \<Rightarrow> world \<Rightarrow> (jsvalue + nat) \<times> world" where
  "launch_try proxyConfig w =
     (let launchOpts = \<lparr>headless = True,
                         args = [''--no-sandbox'', ''--disable-setuid-sandbox''],
                         ignoreHTTPSErrors = False\<rparr>
      in case proxyConfig of
           Some pc \<Rightarrow>
             puppeteer_launch
               (launchOpts\<lparr>ignoreHTTPSErrors := True,
                            args := args launchOpts
                              @ [''--proxy-server='' @ host pc @ '':'' @ string_of_nat (port pc)]\<rparr>)
               (logCall (SetEnv ''NODE_TLS_REJECT_UNAUTHORIZED'' ''0'') w)
         | None \<Rightarrow> puppeteer_launch launchOpts w)"

definition launchBrowser :: "ProxyConfig option \<Rightarrow> (ScrapingError, nat) effect" where
  "launchBrowser proxyConfig =
     tryPromise (launch_try proxyConfig)
       (\<lambda>error. BrowserError
                   (if proxyConfig \<noteq> None then ''Failed to launch browser with Bright Data proxy''
                    else ''Failed to launch browser'')
                   (Some error))"

text \<open>
  The \<^verbatim>\<open>try\<close> body of the acquire step of \<open>navigatePageAndGetContent\<close>: create the
  page and, with a proxy, authenticate it.
\<close>

definition newPage_try :: "nat \<Rightarrow> ProxyConfig option \<Rightarrow> world \<Rightarrow> (jsvalue + nat) \<times> world" where
  "newPage_try browser proxyConfig w =
     (case browser_newPage browser w of
        (Inl thrown, w1) \<Rightarrow> (Inl thrown, w1)
      | (Inr page, w1) \<Rightarrow>
          (case proxyConfig of
             Some pc \<Rightarrow>
               (case page_authenticate page (username pc) (password pc) w1 of
                  (Inl thrown, w2) \<Rightarrow> (Inl thrown, w2)
                | (Inr u, w2) \<Rightarrow> (Inr page, w2))
           | None \<Rightarrow> (Inr page, w1)))"

text \<open>
  The \<^verbatim>\<open>try\<close> body of the use step of \<open>navigatePageAndGetContent\<close>: navigate, check
  the status of the response when there is one, then read the content.
\<close>

definition navigate_try :: "nat \<Rightarrow> string \<Rightarrow> nat \<Rightarrow> world \<Rightarrow> (jsvalue + string) \<times> world" where
  "navigate_try page url timeout w =
     (case page_goto page url ''networkidle2'' (max timeout 30000) w of
        (Inl thrown, w1) \<Rightarrow> (Inl thrown, w1)
      | (Inr response, w1) \<Rightarrow>
          (case response of
             Some status \<Rightarrow>
               if status = 429 then
                 (Inl (Tagged (RateLimitError (''Rate limited: '' @ url) url None)), w1)
               else if status = 403 then
                 (Inl (Tagged (IPBlockError (''IP blocked: '' @ url) url None)), w1)
               else if status \<ge> 400 then
                 (Inl (Tagged (NetworkError
                    (''HTTP error '' @ string_of_nat status @ '': '' @ url) url None)), w1)
               else page_content page w1
           | None \<Rightarrow> page_content page w1))"

text \<open>The \<^verbatim>\<open>catch\<close> function of the use step, with the tests in the order of the source.\<close>

fun navigate_catch :: "string \<Rightarrow> nat \<Rightarrow> jsvalue \<Rightarrow> ScrapingError" where
  "navigate_catch url timeout (Tagged (RateLimitError m u r)) = RateLimitError m u r"
| "navigate_catch url timeout (Tagged (IPBlockError m u p)) = IPBlockError m u p"
| "navigate_catch url timeout (Tagged (NetworkError m u c)) = NetworkError m u c"
| "navigate_catch url timeout error =
     (if instanceofError error \<and> str_includes (errorMessage error) ''timeout'' then
        TimeoutError (''Navigation timeout after '' @ string_of_nat timeout @ ''ms'') url timeout
      else BrowserError ''Failed to navigate or get content'' (Some error))"

definition navigatePageAndGetContent ::
  "nat \<Rightarrow> string \<Rightarrow> ProxyConfig option \<Rightarrow> nat option \<Rightarrow> (ScrapingError, string) effect" where
  "navigatePageAndGetContent browser url proxyConfig timeoutArg =
     (let timeout = (case timeoutArg of None \<Rightarrow> 10000 | Some t \<Rightarrow> t)
      in acquireUseRelease
           (tryPromise (newPage_try browser proxyConfig)
              (\<lambda>error. BrowserError ''Failed to create page or authenticate'' (Some error)))
           (\<lambda>page. tryPromise (navigate_try page url timeout) (navigate_catch url timeout))
           (\<lambda>page. catchAll
                      (tryPromise (page_close page) (\<lambda>error. JsError ''Failed to close page''))
                      (\<lambda>e. void :: (unit, unit) effect)))"

record scrapeOptions =
  timeout :: "nat option"

text \<open>\<^verbatim>\<open>options?.timeout || 10000\<close>: an absent timeout and the timeout 0 give 10000.\<close>

definition scrapeUrl ::
  "processEnv \<Rightarrow> string \<Rightarrow> scrapeOptions option \<Rightarrow> (ScrapingError, string) effect" where
  "scrapeUrl env url options =
     (let proxyConfig = buildProxyConfig env;
          t = (case options of
                 None \<Rightarrow> 10000
               | Some opts \<Rightarrow>
                   (case timeout opts of None \<Rightarrow> 10000 | Some n \<Rightarrow> if n = 0 then 10000 else n))
      in acquireUseRelease
           (launchBrowser proxyConfig)
           (\<lambda>browser. navigatePageAndGetContent browser url proxyConfig (Some t))
           (\<lambda>browser. catchAll
                         (tryPromise (browser_close browser) (\<lambda>error. JsError ''Failed to close browser''))
                         (\<lambda>e. void :: (unit, unit) effect)))"

section \<open>Retry logic and rate limiting\<close>

definition retryableErrors :: "string list" where
  "retryableErrors =
     [''NetworkError'', ''TimeoutError'', ''RateLimitError'', ''IPBlockError'', ''BrowserError'']"

text \<open>\<^verbatim>\<open>Duration.seconds(1)\<close> is 1000 milliseconds.\<close>

definition retryPolicy :: "(nat \<times> nat, ScrapingError) schedule" where
  "retryPolicy = intersect (exponential 1000 2) (recurs 3)"

definition isRetryableError :: "ScrapingError \<Rightarrow> bool" where
  "isRetryableError error = (tag error \<in> set retryableErrors)"

definition retryIfRetryable :: "(ScrapingError, 'a) effect \<Rightarrow> (ScrapingError, 'a) effect" where
  "retryIfRetryable effect = retry_until effect retryPolicy (\<lambda>error. isRetryableError error)"

definition withSimpleRateLimit :: "('e, 'a) effect \<Rightarrow> ('e, 'a) effect" where
  "withSimpleRateLimit effect = flatMap (sleep 100) (\<lambda>u. effect)"

section \<open>Scraping logic\<close>

text \<open>
  The HTML parser behind \<^verbatim>\<open>cheerio.load\<close> is outside the program: it is the parameter
  \<open>load\<close>, which gives the document as a list of nodes or throws. On the document,
  \<^verbatim>\<open>$(tag)\<close> selects the elements with that tag name in document order (nested ones
  included), \<^verbatim>\<open>.text()\<close> concatenates the text of the selected elements and of all
  their descendants, and \<^verbatim>\<open>trim\<close> removes the white space at both ends.
\<close>

datatype node = Text string | Comment string | Element string "node list"

fun textContent :: "node \<Rightarrow> string" where
  "textContent (Text s) = s"
| "textContent (Comment s) = []"
| "textContent (Element name children) = concat (map textContent children)"

fun select :: "string \<Rightarrow> node \<Rightarrow> node list" where
  "select t (Element name children) =
     (if name = t then [Element name children] else []) @ concat (map (select t) children)"
| "select t (Text s) = []"
| "select t (Comment s) = []"

definition selectAll :: "string \<Rightarrow> node list \<Rightarrow> node list" where
  "selectAll t doc = concat (map (select t) doc)"

definition cheerio_text :: "node list \<Rightarrow> string" where
  "cheerio_text els = concat (map textContent els)"

definition isWhiteSpace :: "char \<Rightarrow> bool" where
  "isWhiteSpace c =
     (c \<in> set [CHR 0x09, CHR 0x0A, CHR 0x0B, CHR 0x0C, CHR 0x0D, CHR 0x20, CHR 0xA0])"

definition trim :: "string \<Rightarrow> string" where
  "trim s = rev (dropWhile isWhiteSpace (rev (dropWhile isWhiteSpace s)))"

record ScrapingResult =
  title :: string
  spans :: "string list"
  url :: string

definition parseHtml ::
  "(string \<Rightarrow> jsvalue + node list) \<Rightarrow> string \<Rightarrow> (ScrapingError, ScrapingResult) effect" where
  "parseHtml load html =
     try_sync
       (case load html of
          Inl thrown \<Rightarrow> Inl thrown
        | Inr doc \<Rightarrow>
            Inr \<lparr>title = trim (cheerio_text (selectAll ''h1'' doc)),
                 spans = filter (\<lambda>s. length s > 0)
                           (map (\<lambda>el. trim (cheerio_text [el])) (selectAll ''span'' doc)),
                 url = TARGET_URL\<rparr>)
       (\<lambda>error. ParseError ''Failed to parse HTML'' (Some error))"

definition scrapeWithRetry ::
  "processEnv \<Rightarrow> (string \<Rightarrow> jsvalue + node list) \<Rightarrow> (ScrapingError, ScrapingResult) effect" where
  "scrapeWithRetry env load =
     flatMap
       (retryIfRetryable
          (withSimpleRateLimit (scrapeUrl env TARGET_URL (Some \<lparr>timeout = Some 30000\<rparr>))))
       (parseHtml load)"

section \<open>Observations on runs\<close>

text \<open>
  What the properties below say about a trace: which calls release a resource, which launch
  a browser, which sleep.
  \<open>closesFail\<close> changes what the two close calls do on every browser, and nothing else.
  \<open>decisions\<close> feeds a schedule with the failures of successive attempts, up to the
  first \<open>Done\<close>.
\<close>

fun isRelease :: "event \<Rightarrow> bool" where
  "isRelease (ClosePage p) = True"
| "isRelease (CloseBrowser b) = True"
| "isRelease ev = False"

fun isLaunch :: "event \<Rightarrow> bool" where
  "isLaunch (Launch opts) = True"
| "isLaunch ev = False"

fun isSlept :: "event \<Rightarrow> bool" where
  "isSlept (Slept millis) = True"
| "isSlept ev = False"

definition closesFail :: "(nat \<Rightarrow> jsvalue option) \<Rightarrow> (nat \<Rightarrow> jsvalue option) \<Rightarrow> world \<Rightarrow> world" where
  "closesFail pf bf w =
     w\<lparr>engines := (\<lambda>k. (engines w k)\<lparr>pageClose_throws := pf k, browserClose_throws := bf k\<rparr>)\<rparr>"

fun decisions :: "('i \<Rightarrow> 's \<Rightarrow> 's \<times> decision) \<Rightarrow> 's \<Rightarrow> 'i list \<Rightarrow> decision list" where
  "decisions stp s [] = []"
| "decisions stp s (e # es) =
     (case stp e s of
        (s', Done) \<Rightarrow> [Done]
      | (s', Continue millis) \<Rightarrow> Continue millis # decisions stp s' es)"

text \<open>\<^verbatim>\<open>Effect.fail\<close>, used below for an effect that always fails.\<close>

definition fail :: "'e \<Rightarrow> ('e, 'a) effect" where
  "fail e = (\<lambda>w. Some (Inl e, w))"




section \<open>Sample inputs\<close>

text \<open>
  A process environment without proxy credentials, two pages with the documents that
  the parser makes of them, and an engine that answers every navigation with the given
  status and body and whose \<^verbatim>\<open>page.close\<close> throws.
\<close>

definition noProxy :: processEnv where
  "noProxy = \<lparr>BRIGHT_DATA_CUSTOMER_ID = None, BRIGHT_DATA_ZONE = None,
              BRIGHT_DATA_PASSWORD = None\<rparr>"

definition demoHtml :: string where
  "demoHtml = ''<h1> Quotes </h1><span>a</span><span> </span><span> b </span><span>c</span>''"

definition demoDoc :: "node list" where
  "demoDoc =
     [Element ''html''
        [Element ''head'' [],
         Element ''body''
           [Element ''h1'' [Text '' Quotes ''],
            Element ''span'' [Text ''a''],
            Element ''span'' [Text '' ''],
            Element ''span'' [Text '' b ''],
            Element ''span'' [Text ''c'']]]]"

definition noHeadingHtml :: string where
  "noHeadingHtml = ''<p>no heading</p><span>a</span>''"

definition noHeadingDoc :: "node list" where
  "noHeadingDoc =
     [Element ''html''
        [Element ''head'' [],
         Element ''body'' [Element ''p'' [Text ''no heading''], Element ''span'' [Text ''a'']]]]"

definition demoLoad :: "string \<Rightarrow> jsvalue + node list" where
  "demoLoad html =
     (if html = demoHtml then Inr demoDoc
      else if html = noHeadingHtml then Inr noHeadingDoc
      else Inl (JsError ''cannot parse''))"

definition demoEngine :: "nat \<Rightarrow> string \<Rightarrow> engine" where
  "demoEngine status body =
     \<lparr>launch_throws = None, newPage_throws = None, authenticate_throws = None,
      goto_outcome = GotoResponse status, content_outcome = Inr body,
      pageClose_throws = Some (JsError ''page already closed''), browserClose_throws = None\<rparr>"

definition worldOf :: "engine \<Rightarrow> world" where
  "worldOf g = \<lparr>engines = (\<lambda>n. g), launched = 0, trace = []\<rparr>"

text \<open>
  Proxy credentials, an engine on which \<^verbatim>\<open>page.authenticate\<close> throws, and a world
  whose first browser is answered with status 429 and every later one with status 200.
\<close>

definition withProxy :: processEnv where
  "withProxy = \<lparr>BRIGHT_DATA_CUSTOMER_ID = Some ''c1'', BRIGHT_DATA_ZONE = Some ''z1'',
                BRIGHT_DATA_PASSWORD = Some ''pw''\<rparr>"

definition authFailEngine :: engine where
  "authFailEngine =
     (demoEngine 200 ''<h1>body</h1>'')
       \<lparr>authenticate_throws := Some (JsError ''proxy authentication failed'')\<rparr>"

definition limitedOnce :: world where
  "limitedOnce =
     \<lparr>engines = (\<lambda>n. if n = 0 then demoEngine 429 ''Too Many Requests'' else demoEngine 200 demoHtml),
      launched = 0, trace = []\<rparr>"

section \<open>The session in closed form\<close>

text \<open>
  The worlds and the calls after each step of a session, used to state what
  \<open>launchBrowser\<close>, \<open>navigatePageAndGetContent\<close> and \<open>scrapeUrl\<close> compute by cases
  on the engine.
\<close>

definition afterLaunch :: "ProxyConfig option \<Rightarrow> world \<Rightarrow> world" where
  "afterLaunch pc w = snd (launch_try pc w)"

definition launchCalls :: "ProxyConfig option \<Rightarrow> event list" where
  "launchCalls pc =
     (case pc of
        None \<Rightarrow>
          [Launch \<lparr>headless = True, args = [''--no-sandbox'', ''--disable-setuid-sandbox''],
                   ignoreHTTPSErrors = False\<rparr>]
      | Some c \<Rightarrow>
          [SetEnv ''NODE_TLS_REJECT_UNAUTHORIZED'' ''0'',
           Launch \<lparr>headless = True,
                   args = [''--no-sandbox'', ''--disable-setuid-sandbox'',
                           ''--proxy-server='' @ host c @ '':'' @ string_of_nat (port c)],
                   ignoreHTTPSErrors = True\<rparr>])"

definition newPageCalls :: "nat \<Rightarrow> ProxyConfig option \<Rightarrow> event list" where
  "newPageCalls b pc =
     (case pc of
        None \<Rightarrow> [NewPage b]
      | Some c \<Rightarrow> [NewPage b, Authenticate b (username c) (password c)])"

definition afterNewPage :: "nat \<Rightarrow> ProxyConfig option \<Rightarrow> world \<Rightarrow> world" where
  "afterNewPage b pc w =
     (case pc of
        None \<Rightarrow> logCall (NewPage b) w
      | Some c \<Rightarrow> logCall (Authenticate b (username c) (password c)) (logCall (NewPage b) w))"

definition afterGoto :: "nat \<Rightarrow> string \<Rightarrow> nat \<Rightarrow> world \<Rightarrow> world" where
  "afterGoto p u t w = logCall (Goto p u ''networkidle2'' (max t 30000)) w"

definition readContent ::
  "string \<Rightarrow> nat \<Rightarrow> nat \<Rightarrow> world \<Rightarrow> ((ScrapingError + string) \<times> world) option" where
  "readContent u t p w =
     Some (case content_outcome (engines w p) of
             Inl x \<Rightarrow> Inl (navigate_catch u t x)
           | Inr c \<Rightarrow> Inr c,
           logCall (Content p) (afterGoto p u t w))"

definition timeoutOf :: "scrapeOptions option \<Rightarrow> nat" where
  "timeoutOf opts =
     (case opts of
        None \<Rightarrow> 10000
      | Some v \<Rightarrow> (case timeout v of None \<Rightarrow> 10000 | Some n \<Rightarrow> if n = 0 then 10000 else n))"

definition timeoutArgOf :: "nat option \<Rightarrow> nat" where
  "timeoutArgOf tmo = (case tmo of None \<Rightarrow> 10000 | Some t \<Rightarrow> t)"

lemma logCall_simps [simp]:
  "engines (logCall ev w) = engines w"
  "launched (logCall ev w) = launched w"
  "trace (logCall ev w) = trace w @ [ev]"
  by (simp_all add: logCall_def)

lemma release_page:
  "catchAll (tryPromise (page_close p) h) (\<lambda>e. void) w = Some (Inr (), logCall (ClosePage p) w)"
  by (simp add: catchAll_def tryPromise_def page_close_def void_def succeed_def split: option.split)

lemma release_browser:
  "catchAll (tryPromise (browser_close b) h) (\<lambda>e. void) w = Some (Inr (), logCall (CloseBrowser b) w)"
  by (simp add: catchAll_def tryPromise_def browser_close_def void_def succeed_def split: option.split)

lemma afterNewPage_simps [simp]:
  "engines (afterNewPage b pc w) = engines w"
  "launched (afterNewPage b pc w) = launched w"
  "trace (afterNewPage b pc w) = trace w @ newPageCalls b pc"
  by (simp_all add: afterNewPage_def newPageCalls_def split: option.split)

lemma newPageCalls_simps [simp]:
  "filter isRelease (newPageCalls b pc) = []"
  "filter isSlept (newPageCalls b pc) = []"
  "filter isLaunch (newPageCalls b pc) = []"
  "Content p \<notin> set (newPageCalls b pc)"
  "dropWhile (\<lambda>ev. \<not> isRelease ev) (newPageCalls b pc @ evs) = dropWhile (\<lambda>ev. \<not> isRelease ev) evs"
  by (simp_all add: newPageCalls_def split: option.split)

lemma acquire_page_eq:
  "tryPromise (newPage_try b pc) h w =
     (case newPage_throws (engines w b) of
        Some x \<Rightarrow> Some (Inl (h x), logCall (NewPage b) w)
      | None \<Rightarrow>
          (case pc of
             None \<Rightarrow> Some (Inr b, afterNewPage b pc w)
           | Some c \<Rightarrow>
               (case authenticate_throws (engines w b) of
                  Some x \<Rightarrow> Some (Inl (h x), afterNewPage b pc w)
                | None \<Rightarrow> Some (Inr b, afterNewPage b pc w))))"
  by (simp add: tryPromise_def newPage_try_def browser_newPage_def page_authenticate_def
      afterNewPage_def split: option.split)

lemma afterGoto_simps [simp]:
  "engines (afterGoto p u t w) = engines w"
  "launched (afterGoto p u t w) = launched w"
  "trace (afterGoto p u t w) = trace w @ [Goto p u ''networkidle2'' (max t 30000)]"
  by (simp_all add: afterGoto_def)

lemma use_eq:
  "tryPromise (navigate_try p u t) (navigate_catch u t) w =
     (case goto_outcome (engines w p) of
        GotoThrows x \<Rightarrow> Some (Inl (navigate_catch u t x), afterGoto p u t w)
      | GotoNull \<Rightarrow> readContent u t p w
      | GotoResponse s \<Rightarrow>
          if s = 429 then
            Some (Inl (RateLimitError (''Rate limited: '' @ u) u None), afterGoto p u t w)
          else if s = 403 then
            Some (Inl (IPBlockError (''IP blocked: '' @ u) u None), afterGoto p u t w)
          else if 400 \<le> s then
            Some (Inl (NetworkError (''HTTP error '' @ string_of_nat s @ '': '' @ u) u None),
                  afterGoto p u t w)
          else readContent u t p w)"
  by (simp add: tryPromise_def navigate_try_def page_goto_def page_content_def readContent_def
      afterGoto_def split: gotoOutcome.split sum.split)

lemma navigate_eq:
  "navigatePageAndGetContent b u pc tmo w =
     (case tryPromise (newPage_try b pc)
             (\<lambda>error. BrowserError ''Failed to create page or authenticate'' (Some error)) w of
        None \<Rightarrow> None
      | Some (Inl e, w1) \<Rightarrow> Some (Inl e, w1)
      | Some (Inr p, w1) \<Rightarrow>
          (case tryPromise (navigate_try p u (timeoutArgOf tmo)) (navigate_catch u (timeoutArgOf tmo)) w1 of
             None \<Rightarrow> None
           | Some (exit, w2) \<Rightarrow> Some (exit, logCall (ClosePage p) w2)))"
  by (simp add: navigatePageAndGetContent_def acquireUseRelease_def release_page timeoutArgOf_def
      split: option.split prod.split sum.split)

lemma afterLaunch_simps [simp]:
  "engines (afterLaunch pc w) = engines w"
  "launched (afterLaunch pc w) = Suc (launched w)"
  "trace (afterLaunch pc w) = trace w @ launchCalls pc"
  by (simp_all add: launchCalls_def afterLaunch_def launch_try_def puppeteer_launch_def Let_def
      split: option.split)

lemma launchCalls_simps [simp]:
  "filter isRelease (launchCalls pc) = []"
  "filter isSlept (launchCalls pc) = []"
  "length (filter isLaunch (launchCalls pc)) = 1"
  "\<forall>x\<in>set (launchCalls pc). \<not> isRelease x"
  "dropWhile (\<lambda>ev. \<not> isRelease ev) (launchCalls pc @ evs) = dropWhile (\<lambda>ev. \<not> isRelease ev) evs"
  by (simp_all add: launchCalls_def afterLaunch_def launch_try_def puppeteer_launch_def Let_def
      split: option.split)

lemma launchBrowser_eq:
  "launchBrowser pc w =
     (case launch_throws (engines w (launched w)) of
        Some x \<Rightarrow>
          Some (Inl (BrowserError
                  (if pc \<noteq> None then ''Failed to launch browser with Bright Data proxy''
                   else ''Failed to launch browser'') (Some x)), afterLaunch pc w)
      | None \<Rightarrow> Some (Inr (launched w), afterLaunch pc w))"
  by (simp add: launchBrowser_def tryPromise_def afterLaunch_def launch_try_def
      puppeteer_launch_def Let_def split: option.split)

lemma scrapeUrl_eq:
  "scrapeUrl env u opts w =
     (case launchBrowser (buildProxyConfig env) w of
        None \<Rightarrow> None
      | Some (Inl e, w1) \<Rightarrow> Some (Inl e, w1)
      | Some (Inr b, w1) \<Rightarrow>
          (case navigatePageAndGetContent b u (buildProxyConfig env) (Some (timeoutOf opts)) w1 of
             None \<Rightarrow> None
           | Some (exit, w2) \<Rightarrow> Some (exit, logCall (CloseBrowser b) w2)))"
  by (simp add: scrapeUrl_def Let_def acquireUseRelease_def release_browser timeoutOf_def
      split: option.split prod.split sum.split)

lemmas session_eqs =
  scrapeUrl_eq launchBrowser_eq navigate_eq acquire_page_eq use_eq readContent_def

lemma closesFail_simps [simp]:
  "launched (closesFail pf bf w) = launched w"
  "trace (closesFail pf bf w) = trace w"
  "launch_throws (engines (closesFail pf bf w) k) = launch_throws (engines w k)"
  "newPage_throws (engines (closesFail pf bf w) k) = newPage_throws (engines w k)"
  "authenticate_throws (engines (closesFail pf bf w) k) = authenticate_throws (engines w k)"
  "goto_outcome (engines (closesFail pf bf w) k) = goto_outcome (engines w k)"
  "content_outcome (engines (closesFail pf bf w) k) = content_outcome (engines w k)"
  by (simp_all add: closesFail_def)

lemma navigate_catch_retryable: "isRetryableError (navigate_catch u t x)"
  by (cases "(u, t, x)" rule: navigate_catch.cases)
     (simp_all add: isRetryableError_def retryableErrors_def)

lemma isRetryable_simps [simp]:
  "isRetryableError (NetworkError m u c)"
  "isRetryableError (TimeoutError m u t)"
  "isRetryableError (RateLimitError m u r)"
  "isRetryableError (IPBlockError m u p)"
  "isRetryableError (BrowserError m c)"
  "\<not> isRetryableError (ParseError m c)"
  by (simp_all add: isRetryableError_def retryableErrors_def)

lemma scrapeUrl_shape:
  "\<exists>exit w'. scrapeUrl env u opts w = Some (exit, w') \<and>
     (\<forall>e. exit = Inl e \<longrightarrow> isRetryableError e) \<and>
     engines w' = engines w \<and> launched w' = Suc (launched w) \<and>
     (\<exists>evs. trace w' = trace w @ evs \<and> filter isSlept evs = []
        \<and> length (filter isLaunch evs) = 1)"
  by (simp add: session_eqs navigate_catch_retryable
      split: option.split prod.split sum.split gotoOutcome.split)

text \<open>
  The releases of a session, path by path, and their independence of what the two close
  calls do.
\<close>

lemma scrapeUrl_release_paths:
  "\<exists>exit w'. scrapeUrl env u opts w = Some (exit, w') \<and>
     (\<exists>evs. trace w' = trace w @ evs \<and>
        filter isRelease evs =
          (if launch_throws (engines w (launched w)) \<noteq> None then []
           else if newPage_throws (engines w (launched w)) \<noteq> None then [CloseBrowser (launched w)]
           else if buildProxyConfig env \<noteq> None
                   \<and> authenticate_throws (engines w (launched w)) \<noteq> None
                then [CloseBrowser (launched w)]
           else [ClosePage (launched w), CloseBrowser (launched w)]) \<and>
        dropWhile (\<lambda>ev. \<not> isRelease ev) evs = filter isRelease evs) \<and>
     (\<forall>pf bf. \<exists>w''. scrapeUrl env u opts (closesFail pf bf w) = Some (exit, w'')
        \<and> trace w'' = trace w')"
  by (simp add: session_eqs
      split: option.split prod.split sum.split gotoOutcome.split)

section \<open>Retry and rate limit on the session\<close>

lemma retryIfRetryable_fail:
  "self w = Some (Inl e, w') \<Longrightarrow> isRetryableError e \<Longrightarrow> retryIfRetryable self w = Some (Inl e, w')"
  unfolding retryIfRetryable_def retry_until_def retry_def
  by (subst retry_loop.simps) (simp add: untilInput_def
      retryPolicy_def intersect_def exponential_def recurs_def)

lemma retryIfRetryable_succeed:
  "self w = Some (Inr a, w') \<Longrightarrow> retryIfRetryable self w = Some (Inr a, w')"
  unfolding retryIfRetryable_def retry_until_def retry_def
  by (subst retry_loop.simps) simp

lemma retryIfRetryable_once:
  assumes "self w = Some (exit, w')" and "\<forall>e. exit = Inl e \<longrightarrow> isRetryableError e"
  shows "retryIfRetryable self w = Some (exit, w')"
  using assms by (cases exit) (simp_all add: retryIfRetryable_fail retryIfRetryable_succeed)

lemma rateLimit_eq:
  "withSimpleRateLimit self w = self (logCall (Slept 100) w)"
  by (simp add: withSimpleRateLimit_def flatMap_def sleep_def)

lemma fetch_once:
  "retryIfRetryable (withSimpleRateLimit (scrapeUrl env u opts)) w =
     scrapeUrl env u opts (logCall (Slept 100) w)"
proof -
  obtain exit w' where run: "scrapeUrl env u opts (logCall (Slept 100) w) = Some (exit, w')"
    and ok: "\<forall>e. exit = Inl e \<longrightarrow> isRetryableError e"
    using scrapeUrl_shape [of env u opts "logCall (Slept 100) w"] by blast
  from run have "withSimpleRateLimit (scrapeUrl env u opts) w = Some (exit, w')"
    by (simp add: rateLimit_eq)
  with ok run show ?thesis
    using retryIfRetryable_once [of "withSimpleRateLimit (scrapeUrl env u opts)" w exit w']
    by simp
qed

lemma parseHtml_world: "parseHtml load html w = Some (exit, w') \<Longrightarrow> w' = w"
  by (auto simp: parseHtml_def try_sync_def split: sum.splits)

lemma parseHtml_eq:
  "parseHtml load html w =
     Some (case load html of
             Inl x \<Rightarrow> Inl (ParseError ''Failed to parse HTML'' (Some x))
           | Inr doc \<Rightarrow>
               Inr \<lparr>title = trim (cheerio_text (selectAll ''h1'' doc)),
                    spans = filter (\<lambda>s. length s > 0)
                              (map (\<lambda>el. trim (cheerio_text [el])) (selectAll ''span'' doc)),
                    url = TARGET_URL\<rparr>, w)"
  by (simp add: parseHtml_def try_sync_def split: sum.split)

lemma retry_loop_last:
  "retry_loop self (step retryPolicy) (Suc (Suc (Suc 0)), Suc (Suc (Suc 0))) w = self w"
  by (subst retry_loop.simps)
     (simp add: retryPolicy_def intersect_def exponential_def recurs_def
      split: option.split sum.split prod.split)

lemma retry_loop_first:
  "retry_loop self (step retryPolicy) (0, 0) w =
     (case self w of
        None \<Rightarrow> None
      | Some (Inr a, w') \<Rightarrow> Some (Inr a, w')
      | Some (Inl e, w') \<Rightarrow>
          retry_loop self (step retryPolicy) (Suc 0, Suc 0) (logCall (Slept 1000) w'))"
  by (subst retry_loop.simps)
     (simp add: retryPolicy_def intersect_def exponential_def recurs_def
      split: option.split sum.split prod.split)

lemma retry_loop_second:
  "retry_loop self (step retryPolicy) (Suc 0, Suc 0) w =
     (case self w of
        None \<Rightarrow> None
      | Some (Inr a, w') \<Rightarrow> Some (Inr a, w')
      | Some (Inl e, w') \<Rightarrow>
          retry_loop self (step retryPolicy) (Suc (Suc 0), Suc (Suc 0)) (logCall (Slept 2000) w'))"
  by (subst retry_loop.simps)
     (simp add: retryPolicy_def intersect_def exponential_def recurs_def
      split: option.split sum.split prod.split)

lemma retry_loop_third:
  "retry_loop self (step retryPolicy) (Suc (Suc 0), Suc (Suc 0)) w =
     (case self w of
        None \<Rightarrow> None
      | Some (Inr a, w') \<Rightarrow> Some (Inr a, w')
      | Some (Inl e, w') \<Rightarrow>
          retry_loop self (step retryPolicy) (Suc (Suc (Suc 0)), Suc (Suc (Suc 0))) (logCall (Slept 4000) w'))"
  by (subst retry_loop.simps)
     (simp add: retryPolicy_def intersect_def exponential_def recurs_def
      split: option.split sum.split prod.split)

lemma retryPolicy_initial: "initial retryPolicy = (0, 0)"
  by (simp add: retryPolicy_def intersect_def exponential_def recurs_def)










section \<open>Facts about the sample inputs\<close>

lemma worldOf_simps [simp]:
  "engines (worldOf g) n = g" "launched (worldOf g) = 0" "trace (worldOf g) = []"
  by (simp_all add: worldOf_def)

lemma demoEngine_simps [simp]:
  "launch_throws (demoEngine s b) = None"
  "newPage_throws (demoEngine s b) = None"
  "authenticate_throws (demoEngine s b) = None"
  "goto_outcome (demoEngine s b) = GotoResponse s"
  "content_outcome (demoEngine s b) = Inr b"
  by (simp_all add: demoEngine_def)

lemma buildProxyConfig_noProxy [simp]: "buildProxyConfig noProxy = None"
  by (simp add: buildProxyConfig_def isBrightDataConfigured_def noProxy_def)

lemma demoLoad_simps [simp]:
  "demoLoad demoHtml = Inr demoDoc"
  "demoLoad noHeadingHtml = Inr noHeadingDoc"
  "demoLoad ''garbage'' = Inl (JsError ''cannot parse'')"
  by (simp_all add: demoLoad_def demoHtml_def noHeadingHtml_def)

lemma demo_selects [simp]:
  "selectAll ''h1'' demoDoc = [Element ''h1'' [Text '' Quotes '']]"
  "selectAll ''span'' demoDoc =
     [Element ''span'' [Text ''a''], Element ''span'' [Text '' ''],
      Element ''span'' [Text '' b ''], Element ''span'' [Text ''c'']]"
  "selectAll ''h1'' noHeadingDoc = []"
  "selectAll ''span'' noHeadingDoc = [Element ''span'' [Text ''a'']]"
  by (simp_all add: selectAll_def demoDoc_def noHeadingDoc_def)

lemma demo_trims [simp]:
  "trim [] = []"
  "trim '' Quotes '' = ''Quotes''"
  "trim ''a'' = ''a''"
  "trim '' '' = []"
  "trim '' b '' = ''b''"
  "trim ''c'' = ''c''"
  by (simp_all add: trim_def isWhiteSpace_def)

lemma limitedOnce_simps [simp]:
  "engines limitedOnce 0 = demoEngine 429 ''Too Many Requests''"
  "engines limitedOnce (Suc n) = demoEngine 200 demoHtml"
  "launched limitedOnce = 0" "trace limitedOnce = []"
  by (simp_all add: limitedOnce_def)

lemma withProxy_config [simp]:
  "buildProxyConfig withProxy =
     Some \<lparr>host = ''brd.superproxy.io'', port = 33335,
           username = ''brd-customer-c1-zone-z1'', password = ''pw''\<rparr>"
  by (simp add: buildProxyConfig_def isBrightDataConfigured_def withProxy_def proxyHost_def
      proxyPort_def)

lemma authFailEngine_simps [simp]:
  "launch_throws authFailEngine = None"
  "newPage_throws authFailEngine = None"
  "authenticate_throws authFailEngine = Some (JsError ''proxy authentication failed'')"
  by (simp_all add: authFailEngine_def demoEngine_def)

lemma pipeline_fetch:
  "\<exists>w'. retryIfRetryable
          (withSimpleRateLimit (scrapeUrl noProxy TARGET_URL (Some \<lparr>timeout = Some 30000\<rparr>)))
          (worldOf (demoEngine 200 body)) = Some (Inr body, w')"
  by (simp add: fetch_once session_eqs)

section \<open>Properties\<close>

subsection \<open>C1\<close>

text \<open>
  C1, what the code does. On a world where every response has status 429, a retryable
  failure, \<open>retryIfRetryable\<close> runs \<open>scrapeUrl\<close> once and returns the
  \<open>RateLimitError\<close> without any sleep: \<^verbatim>\<open>until\<close> ends the retries on the first failure
  that satisfies \<open>isRetryableError\<close>. On an effect that always fails with a
  \<open>ParseError\<close>, which is not retryable, it sleeps 1 s, 2 s and 4 s and runs the effect
  four times.
\<close>

theorem retryIfRetryable_misses:
  "(\<exists>w'. retryIfRetryable (scrapeUrl noProxy ''http://a'' None)
            (worldOf (demoEngine 429 ''<h1>body</h1>'')) =
          Some (Inl (RateLimitError ''Rate limited: http://a'' ''http://a'' None), w') \<and>
          launched w' = 1 \<and> filter isSlept (trace w') = []) \<and>
   retryIfRetryable (fail (ParseError ''boom'' None)) (worldOf (demoEngine 200 ''''))
     = Some (Inl (ParseError ''boom'' None),
             (worldOf (demoEngine 200 ''''))\<lparr>trace := [Slept 1000, Slept 2000, Slept 4000]\<rparr>)"
proof
  let ?w = "worldOf (demoEngine 429 ''<h1>body</h1>'')"
  have "\<exists>w'. scrapeUrl noProxy ''http://a'' None ?w =
      Some (Inl (RateLimitError ''Rate limited: http://a'' ''http://a'' None), w') \<and>
          launched w' = 1 \<and> filter isSlept (trace w') = []"
    by (simp add: session_eqs)
  then obtain w' where run: "scrapeUrl noProxy ''http://a'' None ?w =
      Some (Inl (RateLimitError ''Rate limited: http://a'' ''http://a'' None), w')"
    and rest: "launched w' = 1" "filter isSlept (trace w') = []"
    by blast
  have "retryIfRetryable (scrapeUrl noProxy ''http://a'' None) ?w =
      Some (Inl (RateLimitError ''Rate limited: http://a'' ''http://a'' None), w')"
    using retryIfRetryable_fail [of "scrapeUrl noProxy ''http://a'' None" ?w _ w'] run by simp
  with rest show "\<exists>w'. retryIfRetryable (scrapeUrl noProxy ''http://a'' None) ?w =
          Some (Inl (RateLimitError ''Rate limited: http://a'' ''http://a'' None), w') \<and>
          launched w' = 1 \<and> filter isSlept (trace w') = []"
    by blast
next
  show "retryIfRetryable (fail (ParseError ''boom'' None)) (worldOf (demoEngine 200 ''''))
     = Some (Inl (ParseError ''boom'' None),
             (worldOf (demoEngine 200 ''''))\<lparr>trace := [Slept 1000, Slept 2000, Slept 4000]\<rparr>)"
    unfolding retryIfRetryable_def retry_until_def retry_def
    apply (subst retry_loop.simps)
    apply (simp add: untilInput_def retryPolicy_def intersect_def exponential_def recurs_def fail_def)
    apply (subst retry_loop.simps)
    apply (simp add: untilInput_def retryPolicy_def intersect_def exponential_def recurs_def fail_def)
    apply (subst retry_loop.simps)
    apply (simp add: untilInput_def retryPolicy_def intersect_def exponential_def recurs_def fail_def)
    apply (subst retry_loop.simps)
    apply (simp add: untilInput_def retryPolicy_def intersect_def exponential_def recurs_def fail_def
        logCall_def worldOf_def)
    done
qed

subsection \<open>C2\<close>

text \<open>
  C2, what the code does. With a proxy configured, on an engine where
  \<^verbatim>\<open>browser.newPage\<close> returns a page and \<^verbatim>\<open>page.authenticate\<close> throws, the run of
  \<open>scrapeUrl\<close> fails with a \<open>BrowserError\<close> and its whole trace is: set the environment
  variable, launch, create the page, authenticate, close the browser. The page that was
  created is never closed by \<^verbatim>\<open>page.close\<close>: the
  authentication is part of the acquire step, and a failed acquire step has no release.
\<close>

theorem scrapeUrl_page_left_open:
  "newPage_throws (engines (worldOf authFailEngine) 0) = None \<and>
   (\<exists>w'. scrapeUrl withProxy ''http://a'' None (worldOf authFailEngine) =
      Some (Inl (BrowserError ''Failed to create page or authenticate''
                   (Some (JsError ''proxy authentication failed''))), w') \<and>
      trace w' =
        [SetEnv ''NODE_TLS_REJECT_UNAUTHORIZED'' ''0'',
         Launch \<lparr>headless = True,
                 args = [''--no-sandbox'', ''--disable-setuid-sandbox'',
                         ''--proxy-server=brd.superproxy.io:33335''],
                 ignoreHTTPSErrors = True\<rparr>,
         NewPage 0,
         Authenticate 0 ''brd-customer-c1-zone-z1'' ''pw'',
         CloseBrowser 0])"
  by (simp add: session_eqs launchCalls_def newPageCalls_def string_of_nat.simps digit_def)

subsection \<open>C3\<close>




subsection \<open>C4\<close>

text \<open>
  C4 as stated gives \<open>1000 * 2 ^ (n - 1)\<close> before attempt \<open>n\<close>, that is 2000 ms before
  attempt 2; the policy waits 1000 ms there.
\<close>

theorem retryPolicy_first_delay_counterexample:
  "decisions (step retryPolicy) (initial retryPolicy) [ParseError ''boom'' None] = [Continue 1000]
   \<and> (1000 :: nat) \<noteq> 1000 * 2 ^ (2 - 1)"
  by (simp add: retryPolicy_def intersect_def exponential_def recurs_def)

text \<open>
  C4, as amended. Fed with any four failures, \<open>retryPolicy\<close> continues three times and
  then is done, and the delay before attempt \<open>n\<close> (for \<open>n\<close> = 2, 3, 4) is
  \<open>1000 * 2 ^ (n - 2)\<close> milliseconds: 1 s, 2 s, 4 s. Accordingly
  \<^verbatim>\<open>Effect.retry(self, retryPolicy)\<close> runs \<open>self\<close> at most four times, with no sleep
  before the first run and these sleeps before the next three.
\<close>

theorem retryPolicy_backoff:
  "decisions (step retryPolicy) (initial retryPolicy) (e1 # e2 # e3 # e4 # es) =
     map (\<lambda>n. Continue (1000 * 2 ^ (n - 2))) [2, 3, 4] @ [Done] \<and>
   retry self retryPolicy w =
     (case self w of
        None \<Rightarrow> None
      | Some (Inr a, w1) \<Rightarrow> Some (Inr a, w1)
      | Some (Inl e1, w1) \<Rightarrow>
          (case self (logCall (Slept 1000) w1) of
             None \<Rightarrow> None
           | Some (Inr a, w2) \<Rightarrow> Some (Inr a, w2)
           | Some (Inl e2, w2) \<Rightarrow>
               (case self (logCall (Slept 2000) w2) of
                  None \<Rightarrow> None
                | Some (Inr a, w3) \<Rightarrow> Some (Inr a, w3)
                | Some (Inl e3, w3) \<Rightarrow> self (logCall (Slept 4000) w3))))"
proof
  show "decisions (step retryPolicy) (initial retryPolicy) (e1 # e2 # e3 # e4 # es) =
     map (\<lambda>n. Continue (1000 * 2 ^ (n - 2))) [2, 3, 4] @ [Done]"
    by (simp add: retryPolicy_def intersect_def exponential_def recurs_def)
next
  show "retry self retryPolicy w =
     (case self w of
        None \<Rightarrow> None
      | Some (Inr a, w1) \<Rightarrow> Some (Inr a, w1)
      | Some (Inl e1, w1) \<Rightarrow>
          (case self (logCall (Slept 1000) w1) of
             None \<Rightarrow> None
           | Some (Inr a, w2) \<Rightarrow> Some (Inr a, w2)
           | Some (Inl e2, w2) \<Rightarrow>
               (case self (logCall (Slept 2000) w2) of
                  None \<Rightarrow> None
                | Some (Inr a, w3) \<Rightarrow> Some (Inr a, w3)
                | Some (Inl e3, w3) \<Rightarrow> self (logCall (Slept 4000) w3))))"
    unfolding retry_def retryPolicy_initial
    by (simp add: retry_loop_first retry_loop_second retry_loop_third retry_loop_last
        split: option.split sum.split prod.split)
qed

theorem retryPolicy_backoff_witness:
  "decisions (step retryPolicy) (initial retryPolicy)
     [RateLimitError ''a'' ''b'' None, RateLimitError ''a'' ''b'' None,
      RateLimitError ''a'' ''b'' None, RateLimitError ''a'' ''b'' None] =
     [Continue 1000, Continue 2000, Continue 4000, Done]"
  using retryPolicy_backoff [THEN conjunct1, of "RateLimitError ''a'' ''b'' None"
      "RateLimitError ''a'' ''b'' None" "RateLimitError ''a'' ''b'' None"
      "RateLimitError ''a'' ''b'' None" "[]"]
  by simp

subsection \<open>C5\<close>

text \<open>
  C5. When the page was acquired and \<^verbatim>\<open>page.goto\<close> returned a response, the exit of
  \<open>navigatePageAndGetContent\<close> is determined by the status: 429 is a
  \<open>RateLimitError\<close>, 403 an \<open>IPBlockError\<close>, any other status from 400 on a
  \<open>NetworkError\<close>, and below 400 it is what reading the content gives. The content is
  read exactly when the status is below 400, so a response with a failing status fails
  whatever body it carries.
\<close>

theorem status_classification:
  assumes "newPage_throws (engines w b) = None"
    and "pc = None \<or> authenticate_throws (engines w b) = None"
    and "goto_outcome (engines w b) = GotoResponse status"
  shows "\<exists>exit w' evs. navigatePageAndGetContent b u pc tmo w = Some (exit, w') \<and>
           exit =
             (if status = 429 then Inl (RateLimitError (''Rate limited: '' @ u) u None)
              else if status = 403 then Inl (IPBlockError (''IP blocked: '' @ u) u None)
              else if status \<ge> 400 then
                Inl (NetworkError (''HTTP error '' @ string_of_nat status @ '': '' @ u) u None)
              else (case content_outcome (engines w b) of
                      Inl x \<Rightarrow> Inl (navigate_catch u (case tmo of None \<Rightarrow> 10000 | Some t \<Rightarrow> t) x)
                    | Inr c \<Rightarrow> Inr c)) \<and>
           trace w' = trace w @ evs \<and> (Content b \<in> set evs) = (status < 400)"
  using assms
  by (auto simp: navigate_eq acquire_page_eq use_eq readContent_def timeoutArgOf_def
      split: option.split)

theorem status_classification_witness:
  "\<exists>w'. navigatePageAndGetContent 0 ''http://a'' None (Some 30000)
           (worldOf (demoEngine 429 ''<h1>body</h1>'')) =
         Some (Inl (RateLimitError ''Rate limited: http://a'' ''http://a'' None), w') \<and>
         Content 0 \<notin> set (trace w')"
  using status_classification [of "worldOf (demoEngine 429 ''<h1>body</h1>'')" 0 None 429
      "''http://a''" "Some 30000"]
  by auto

subsection \<open>C6\<close>

text \<open>
  C6. When a run of the pipeline ends with a \<open>ParseError\<close>, the fetch stage had returned
  the content as a success, parsing that content gave the error, and the world at the end
  is the world the fetch stage left: nothing ran after the parse, and the whole run
  launched one browser.
\<close>

theorem parse_error_not_retried:
  assumes "scrapeWithRetry env load w = Some (Inl (ParseError m c), w')"
  shows "\<exists>html evs.
           retryIfRetryable
             (withSimpleRateLimit (scrapeUrl env TARGET_URL (Some \<lparr>timeout = Some 30000\<rparr>))) w
             = Some (Inr html, w') \<and>
           parseHtml load html w' = Some (Inl (ParseError m c), w') \<and>
           trace w' = trace w @ evs \<and> length (filter isLaunch evs) = 1 \<and>
           launched w' = Suc (launched w)"
proof -
  let ?opts = "Some \<lparr>timeout = Some 30000\<rparr>"
  obtain exit w1 evs where run: "scrapeUrl env TARGET_URL ?opts (logCall (Slept 100) w) = Some (exit, w1)"
    and ok: "\<forall>e. exit = Inl e \<longrightarrow> isRetryableError e"
    and fr: "launched w1 = Suc (launched (logCall (Slept 100) w))"
    and tr: "trace w1 = trace (logCall (Slept 100) w) @ evs"
      "length (filter isLaunch evs) = 1"
    using scrapeUrl_shape [of env TARGET_URL ?opts "logCall (Slept 100) w"] by blast
  show ?thesis
  proof (cases exit)
    case (Inl e)
    with assms run ok show ?thesis
      by (auto simp: scrapeWithRetry_def flatMap_def fetch_once)
  next
    case (Inr html)
    with assms run have p: "parseHtml load html w1 = Some (Inl (ParseError m c), w')"
      by (simp add: scrapeWithRetry_def flatMap_def fetch_once)
    then have "w' = w1" by (simp add: parseHtml_world)
    with p run Inr fr tr show ?thesis
      by (simp add: fetch_once)
  qed
qed

theorem parse_error_not_retried_witness:
  "\<exists>w' evs.
     scrapeWithRetry noProxy demoLoad (worldOf (demoEngine 200 ''garbage'')) =
       Some (Inl (ParseError ''Failed to parse HTML'' (Some (JsError ''cannot parse''))), w') \<and>
     retryIfRetryable
       (withSimpleRateLimit (scrapeUrl noProxy TARGET_URL (Some \<lparr>timeout = Some 30000\<rparr>)))
       (worldOf (demoEngine 200 ''garbage'')) = Some (Inr ''garbage'', w') \<and>
     trace w' = evs \<and> length (filter isLaunch evs) = 1 \<and> launched w' = 1"
proof -
  let ?w = "worldOf (demoEngine 200 ''garbage'')"
  obtain w' where f: "retryIfRetryable
       (withSimpleRateLimit (scrapeUrl noProxy TARGET_URL (Some \<lparr>timeout = Some 30000\<rparr>))) ?w
        = Some (Inr ''garbage'', w')"
    using pipeline_fetch [of "''garbage''"] by blast
  then have run: "scrapeWithRetry noProxy demoLoad ?w =
       Some (Inl (ParseError ''Failed to parse HTML'' (Some (JsError ''cannot parse''))), w')"
    by (simp add: scrapeWithRetry_def flatMap_def parseHtml_eq)
  from parse_error_not_retried [OF run] f run show ?thesis by auto
qed

subsection \<open>C7\<close>

text \<open>
  C7 as stated expects a \<open>ParseError\<close> for content without a heading; the pipeline
  returns a record with the empty title.
\<close>

theorem no_heading_counterexample:
  "selectAll ''h1'' noHeadingDoc = [] \<and>
   (\<exists>w'. scrapeWithRetry noProxy demoLoad (worldOf (demoEngine 200 noHeadingHtml)) =
      Some (Inr \<lparr>title = [], spans = [''a''], url = TARGET_URL\<rparr>, w'))"
proof -
  obtain w' where f: "retryIfRetryable
       (withSimpleRateLimit (scrapeUrl noProxy TARGET_URL (Some \<lparr>timeout = Some 30000\<rparr>)))
       (worldOf (demoEngine 200 noHeadingHtml)) = Some (Inr noHeadingHtml, w')"
    using pipeline_fetch [of noHeadingHtml] by blast
  then have "scrapeWithRetry noProxy demoLoad (worldOf (demoEngine 200 noHeadingHtml)) =
      Some (Inr \<lparr>title = [], spans = [''a''], url = TARGET_URL\<rparr>, w')"
    by (simp add: scrapeWithRetry_def flatMap_def parseHtml_eq cheerio_text_def)
  then show ?thesis by auto
qed

text \<open>
  C7, as amended. When the content which the fetch stage returns parses to a document with
  no \<^verbatim>\<open>h1\<close> element, the pipeline succeeds with the empty title and the spans of the
  document, in the world the fetch stage left (no further attempt is made).
\<close>

theorem no_heading_gives_empty_title:
  assumes "retryIfRetryable
             (withSimpleRateLimit (scrapeUrl env TARGET_URL (Some \<lparr>timeout = Some 30000\<rparr>))) w
             = Some (Inr html, w')"
    and "load html = Inr doc" and "selectAll ''h1'' doc = []"
  shows "scrapeWithRetry env load w =
           Some (Inr \<lparr>title = [],
                      spans = filter (\<lambda>s. length s > 0)
                                (map (\<lambda>el. trim (cheerio_text [el])) (selectAll ''span'' doc)),
                      url = TARGET_URL\<rparr>, w')"
  using assms
  by (simp add: scrapeWithRetry_def flatMap_def parseHtml_eq cheerio_text_def trim_def)

theorem no_heading_gives_empty_title_witness:
  "\<exists>w'. scrapeWithRetry noProxy demoLoad (worldOf (demoEngine 200 noHeadingHtml)) =
      Some (Inr \<lparr>title = [], spans = [''a''], url = TARGET_URL\<rparr>, w')"
proof -
  obtain w' where f: "retryIfRetryable
       (withSimpleRateLimit (scrapeUrl noProxy TARGET_URL (Some \<lparr>timeout = Some 30000\<rparr>)))
       (worldOf (demoEngine 200 noHeadingHtml)) = Some (Inr noHeadingHtml, w')"
    using pipeline_fetch [of noHeadingHtml] by blast
  from no_heading_gives_empty_title [OF f, of demoLoad noHeadingDoc] show ?thesis
    by (auto simp: cheerio_text_def)
qed

subsection \<open>C8\<close>

text \<open>
  C8. When the document has one \<^verbatim>\<open>h1\<close> element and four \<^verbatim>\<open>span\<close> elements of which
  exactly one has a text that trims to the empty string, \<open>parseHtml\<close> succeeds: the title
  is the trimmed text of the heading and the spans are the trimmed texts of the three other
  \<^verbatim>\<open>span\<close> elements, in document order.
\<close>

theorem parseHtml_heading_and_spans:
  assumes "load html = Inr doc" and "selectAll ''h1'' doc = [h]"
    and "selectAll ''span'' doc = ss" and "length ss = 4"
    and "length (filter (\<lambda>el. trim (textContent el) = []) ss) = 1"
  shows "\<exists>sp. parseHtml load html w =
                 Some (Inr \<lparr>title = trim (textContent h), spans = sp, url = TARGET_URL\<rparr>, w) \<and>
              sp = map (\<lambda>el. trim (textContent el))
                     (filter (\<lambda>el. trim (textContent el) \<noteq> []) ss) \<and>
              length sp = 3 \<and> [] \<notin> set sp"
proof -
  have "length (filter (\<lambda>el. trim (textContent el) \<noteq> []) ss) = 3"
    using assms(4,5) sum_length_filter_compl [of "\<lambda>el. trim (textContent el) = []" ss]
    by simp
  then show ?thesis
    using assms(1-3)
    by (auto simp: parseHtml_eq cheerio_text_def filter_map comp_def)
qed

theorem parseHtml_heading_and_spans_witness:
  "parseHtml demoLoad demoHtml (worldOf (demoEngine 200 demoHtml)) =
     Some (Inr \<lparr>title = ''Quotes'', spans = [''a'', ''b'', ''c''], url = TARGET_URL\<rparr>,
           worldOf (demoEngine 200 demoHtml))"
  using parseHtml_heading_and_spans [of demoLoad demoHtml demoDoc "Element ''h1'' [Text '' Quotes '']"
      "[Element ''span'' [Text ''a''], Element ''span'' [Text '' ''],
        Element ''span'' [Text '' b ''], Element ''span'' [Text ''c'']]"
      "worldOf (demoEngine 200 demoHtml)"]
  by auto

subsection \<open>C9\<close>

text \<open>
  C9. When the page was acquired and \<^verbatim>\<open>page.goto\<close> returned no response, the content
  is read and the exit is what reading it gives: the content itself, as a success, when
  \<^verbatim>\<open>page.content\<close> returns it.
\<close>

theorem null_response_skips_status_check:
  assumes "newPage_throws (engines w b) = None"
    and "pc = None \<or> authenticate_throws (engines w b) = None"
    and "goto_outcome (engines w b) = GotoNull"
  shows "\<exists>exit w' evs. navigatePageAndGetContent b u pc tmo w = Some (exit, w') \<and>
           exit = (case content_outcome (engines w b) of
                     Inl x \<Rightarrow> Inl (navigate_catch u (case tmo of None \<Rightarrow> 10000 | Some t \<Rightarrow> t) x)
                   | Inr c \<Rightarrow> Inr c) \<and>
           (\<forall>c. content_outcome (engines w b) = Inr c \<longrightarrow> exit = Inr c) \<and>
           trace w' = trace w @ evs \<and> Content b \<in> set evs"
  using assms
  by (auto simp: navigate_eq acquire_page_eq use_eq readContent_def timeoutArgOf_def
      split: option.split)

theorem null_response_skips_status_check_witness:
  "\<exists>w'. navigatePageAndGetContent 0 ''http://a'' None (Some 30000)
           (worldOf ((demoEngine 429 ''<h1>body</h1>'')\<lparr>goto_outcome := GotoNull\<rparr>)) =
         Some (Inr ''<h1>body</h1>'', w')"
  using null_response_skips_status_check
    [of "worldOf ((demoEngine 429 ''<h1>body</h1>'')\<lparr>goto_outcome := GotoNull\<rparr>)" 0 None
      "''http://a''" "Some 30000"]
  by (auto simp: demoEngine_def)

subsection \<open>C10\<close>

text \<open>
  C10. \<open>parseHtml\<close> always returns, without touching the world, and the \<open>url\<close> of a
  record it returns is \<open>TARGET_URL\<close>, whatever the content and the parser.
\<close>

theorem parseHtml_url_is_TARGET_URL:
  "\<exists>exit. parseHtml load html w = Some (exit, w) \<and>
     (\<forall>r. exit = Inr r \<longrightarrow> url r = TARGET_URL) \<and>
     TARGET_URL = ''https://quotes.toscrape.com/js/''"
  by (simp add: parseHtml_eq TARGET_URL_def split: sum.split)

theorem parseHtml_url_is_TARGET_URL_witness:
  "\<exists>r. parseHtml demoLoad demoHtml (worldOf (demoEngine 200 demoHtml)) =
          Some (Inr r, worldOf (demoEngine 200 demoHtml)) \<and>
        url r = ''https://quotes.toscrape.com/js/''"
  using parseHtml_url_is_TARGET_URL [of demoLoad demoHtml "worldOf (demoEngine 200 demoHtml)"]
  by (auto simp: parseHtml_eq)

end
